theory Spec2Isabelle
  imports Main "HOL-Library.Word"
begin

unbundle bit_operations_syntax

section \<open>The generational communicator of hpx/collectives/detail/communicator.hpp\<close>

text \<open>
  A shallow embedding of \<^verbatim>\<open>hpx::collectives::detail::communicator_server\<close>: the data
  members that the class protects with its mutex become a record, every member function
  becomes a function that takes the record and returns the updated one, and every
  exception becomes a value of the sum type \<open>exn + result\<close>.
\<close>

subsection \<open>Data model\<close>

text \<open>\<^verbatim>\<open>std::size_t\<close> on the 64-bit targets of the library; \<open>npos\<close> is
  \<^verbatim>\<open>static_cast<std::size_t>(-1)\<close>.\<close>

type_synonym size_t = "64 word"

definition npos :: size_t where
  "npos = - 1"

text \<open>\<^verbatim>\<open>operation_id_type\<close> is \<^verbatim>\<open>void const*\<close>: \<open>None\<close> is the null pointer,
  \<open>Some a\<close> the address \<open>a\<close>.\<close>

type_synonym operation_id_type = "nat option"

text \<open>The element type \<^verbatim>\<open>T\<close> of a typed access: its identity, the value a
  value-initialised element has (what \<^verbatim>\<open>std::vector<T>(n)\<close> fills itself with), and
  \<^verbatim>\<open>std::vector<T>::max_size()\<close>, the largest \<open>n\<close> for which the constructor
  \<^verbatim>\<open>std::vector<T>(n)\<close> does not throw \<^verbatim>\<open>std::length_error\<close>.\<close>

datatype 'v elem_type = Elem_type (type_id: nat) (value_init: 'v) (max_size: nat)

text \<open>The type of the member \<^verbatim>\<open>data_\<close>, \<^verbatim>\<open>hpx::unique_any_nonser\<close>: empty, or a \<^verbatim>\<open>std::vector<T>\<close> tagged with the
  identity of \<^verbatim>\<open>T\<close>. Values of all element types live in the one universe \<open>'v\<close>.\<close>

datatype 'v any = Any_empty | Any_vector nat "'v list"

text \<open>The pointer form \<^verbatim>\<open>hpx::any_cast<std::vector<T>>(&data_)\<close>: \<open>None\<close> is the null
  pointer it returns when the stored type is not \<^verbatim>\<open>std::vector<T>\<close>.\<close>

fun any_cast :: "'v elem_type \<Rightarrow> 'v any \<Rightarrow> 'v list option" where
  "any_cast T Any_empty = None"
| "any_cast T (Any_vector U v) = (if U = type_id T then Some v else None)"

text \<open>The exceptions of the class. \<open>Invalid_status\<close> carries the place that raised
  \<^verbatim>\<open>hpx::error::invalid_status\<close>; \<open>System_error\<close> is the \<^verbatim>\<open>std::system_error\<close> of
  \<^verbatim>\<open>std::unique_lock::unlock\<close> on a lock that does not own its mutex; \<open>Bad_any_cast\<close> is
  raised by the reference form of \<^verbatim>\<open>hpx::any_cast\<close>; exceptions stored in the gate's future
  and exceptions of the user's step and finalizer are values of \<open>'e\<close>.\<close>

datatype sequencing_error =
    Ready_before_start
  | Operation_mismatch
  | On_ready_mismatch
  | Excessive_on_ready
  | Incomplete_on_ready

datatype 'e exn =
    Invalid_status sequencing_error
  | System_error
  | Bad_any_cast
  | Future_exception 'e
  | User_exception 'e

text \<open>The data members of \<^verbatim>\<open>communicator_server\<close> (lines 433 to 441), each under the
  name the source gives it without the trailing underscore (\<^verbatim>\<open>data_\<close> is \<open>data\<close>, and so
  on). The mutex and the gate are not fields: what the code asks of them appears as a
  parameter or as a result of the functions below.\<close>

record 'v communicator_server =
  data :: "'v any"
  num_sites :: size_t
  on_ready_count :: size_t
  current_operation :: operation_id_type
  needs_initialization :: bool
  data_available :: bool

text \<open>Modelled from the spec: the definition of the constructor
  \<^verbatim>\<open>communicator_server(std::size_t num_sites)\<close>, which the header only declares. A
  communicator "is created with a fixed num_sites and placed in the inactive state";
  the other members take the default member initialisers of lines 437 to 441.\<close>

definition new_communicator_server :: "size_t \<Rightarrow> 'v communicator_server" where
  "new_communicator_server n =
     \<lparr> data = Any_empty, num_sites = n, on_ready_count = 0,
       current_operation = None, needs_initialization = True, data_available = False \<rparr>"

subsection \<open>Typed access to the payload\<close>

definition get_num_sites :: "('v, 'x) communicator_server_scheme \<Rightarrow> size_t \<Rightarrow> size_t" where
  "get_num_sites s num_values = (if num_values = npos then num_sites s else num_values)"

text \<open>\<^verbatim>\<open>reinitialize_data<T>(num_values)\<close>. \<^verbatim>\<open>data->size()\<close> is the length of the stored
  list. The function describes the calls in which the construction
  \<^verbatim>\<open>std::vector<T>(new_size)\<close> succeeds. That construction throws \<^verbatim>\<open>std::length_error\<close> when
  \<open>new_size\<close> exceeds \<open>max_size T\<close> (and \<^verbatim>\<open>std::bad_alloc\<close> when memory is exhausted), after
  both flags have been cleared and with \<^verbatim>\<open>data_\<close> not replaced; what is proved below of the
  fresh vector is therefore proved under the hypothesis \<open>unat new_size \<le> max_size T\<close>.\<close>

definition reinitialize_data ::
  "'v elem_type \<Rightarrow> size_t \<Rightarrow> ('v, 'x) communicator_server_scheme
     \<Rightarrow> ('v, 'x) communicator_server_scheme" where
  "reinitialize_data T num_values s =
     (if needs_initialization s then
        (let s1 = s\<lparr> needs_initialization := False, data_available := False \<rparr>;
             new_size = get_num_sites s1 num_values
         in case any_cast T (data s1) of
              None \<Rightarrow> s1\<lparr> data := Any_vector (type_id T) (replicate (unat new_size) (value_init T)) \<rparr>
            | Some v \<Rightarrow>
                if length v < unat new_size
                then s1\<lparr> data := Any_vector (type_id T) (replicate (unat new_size) (value_init T)) \<rparr>
                else s1)
      else s)"

text \<open>\<^verbatim>\<open>access_data<T>(num_values)\<close>: the reference form of \<^verbatim>\<open>any_cast\<close> throws when the
  stored value is not a \<^verbatim>\<open>std::vector<T>\<close>. The caller writes through the returned
  reference; the model returns the list, and the caller stores the list it ends with.\<close>

definition access_data ::
  "'v elem_type \<Rightarrow> size_t \<Rightarrow> ('v, 'x) communicator_server_scheme
     \<Rightarrow> ('e exn + 'v list) \<times> ('v, 'x) communicator_server_scheme" where
  "access_data T num_values s =
     (let s1 = reinitialize_data T num_values s
      in case any_cast T (data s1) of
           None \<Rightarrow> (Inl Bad_any_cast, s1)
         | Some v \<Rightarrow> (Inr v, s1))"

definition invalidate_data ::
  "('v, 'x) communicator_server_scheme \<Rightarrow> ('v, 'x) communicator_server_scheme" where
  "invalidate_data s =
     (if \<not> needs_initialization s then
        s\<lparr> needs_initialization := True, data_available := False,
           on_ready_count := 0, current_operation := None \<rparr>
      else s)"

subsection \<open>The synchronizer \<^verbatim>\<open>handle_data\<close>\<close>

text \<open>The user's callables. A step receives \<^verbatim>\<open>std::vector<T>&\<close> and \<^verbatim>\<open>which\<close>; a finalizer
  receives \<^verbatim>\<open>std::vector<T>&\<close>, the member \<^verbatim>\<open>data_available_\<close> and \<^verbatim>\<open>which\<close>. Each returns
  what it leaves in the arguments it received by reference, and either its result or the
  exception it threw.\<close>

type_synonym ('v, 'e) step = "'v list \<Rightarrow> size_t \<Rightarrow> ('e + unit) \<times> 'v list"

type_synonym ('v, 'e, 'r) finalizer =
  "'v list \<Rightarrow> bool \<Rightarrow> size_t \<Rightarrow> ('e + 'r) \<times> 'v list \<times> bool"

text \<open>\<^verbatim>\<open>l.unlock()\<close> on a \<^verbatim>\<open>std::unique_lock\<close>: it throws \<^verbatim>\<open>std::system_error\<close>
  (operation not permitted) when the lock does not own the mutex.\<close>

definition unlock :: "bool \<Rightarrow> 'e exn option" where
  "unlock owns = (if owns then None else Some System_error)"

text \<open>\<^verbatim>\<open>l.unlock(); HPX_THROW_EXCEPTION(hpx::error::invalid_status, ...)\<close>.\<close>

definition unlock_and_throw :: "bool \<Rightarrow> sequencing_error \<Rightarrow> 'e exn" where
  "unlock_and_throw owns err =
     (case unlock owns of Some e \<Rightarrow> e | None \<Rightarrow> Invalid_status err)"

text \<open>The guard \<^verbatim>\<open>on_exit _([this] { ++on_ready_count_; })\<close>: its destructor runs when the
  scope is left, by a return or by an exception.\<close>

definition on_exit ::
  "('s \<Rightarrow> 's) \<Rightarrow> 'a \<times> 's \<Rightarrow> 'a \<times> 's" where
  "on_exit g rs = (fst rs, g (snd rs))"

text \<open>The continuation \<^verbatim>\<open>on_ready\<close> (lines 279 to 339). \<open>f\<close> is the exception the gate's
  shared future holds, if any (\<^verbatim>\<open>f.get()\<close> rethrows it); \<open>owns\<close> tells whether
  \<^verbatim>\<open>std::unique_lock l(mtx_, std::try_to_lock)\<close> acquired the mutex, which it does not when
  the surrounding logic still holds it. The result is \<open>None\<close> for the \<^verbatim>\<open>void\<close> return
  of a null finalizer. The finalizer sees \<^verbatim>\<open>data_available_\<close> as \<^verbatim>\<open>access_data\<close> leaves it
  (it receives the member by reference); \<^verbatim>\<open>access_data\<close> changes the flag only when
  \<open>needs_initialization\<close> is true, and then sets it to false.\<close>

definition on_ready ::
  "operation_id_type \<Rightarrow> size_t \<Rightarrow> size_t \<Rightarrow> ('v, 'e, 'r) finalizer option \<Rightarrow> 'v elem_type
     \<Rightarrow> 'e option \<Rightarrow> bool \<Rightarrow> ('v, 'x) communicator_server_scheme
     \<Rightarrow> ('e exn + 'r option) \<times> ('v, 'x) communicator_server_scheme" where
  "on_ready operation which num_values finalizer T f owns s =
     (case f of
        Some e \<Rightarrow> (Inl (Future_exception e), s)
      | None \<Rightarrow>
          if current_operation s = None \<or> current_operation s \<noteq> operation then
            (Inl (unlock_and_throw owns On_ready_mismatch), s)
          else if num_sites s \<le> on_ready_count s then
            (Inl (unlock_and_throw owns Excessive_on_ready), s)
          else
            on_exit (\<lambda>s'. s'\<lparr> on_ready_count := on_ready_count s' + 1 \<rparr>)
              (case finalizer of
                 None \<Rightarrow> (Inr None, s)
               | Some fin \<Rightarrow>
                   (case access_data T num_values s of
                      (Inl e, s1) \<Rightarrow> (Inl e, s1)
                    | (Inr v, s1) \<Rightarrow>
                        (case fin v (data_available s1) which of
                           (r, v', avail) \<Rightarrow>
                             (case r of
                                Inl e \<Rightarrow> Inl (User_exception e)
                              | Inr x \<Rightarrow> Inr (Some x),
                              s1\<lparr> data := Any_vector (type_id T) v',
                                  data_available := avail \<rparr>)))))"

text \<open>The admission check of \<^verbatim>\<open>handle_data\<close> (lines 341 to 368). The lock \<open>l\<close> was
  constructed by \<^verbatim>\<open>std::unique_lock l(mtx_)\<close> and owns the mutex, so \<^verbatim>\<open>l.unlock()\<close> does
  not throw here.\<close>

definition admission_check ::
  "operation_id_type \<Rightarrow> ('v, 'x) communicator_server_scheme
     \<Rightarrow> ('e exn + unit) \<times> ('v, 'x) communicator_server_scheme" where
  "admission_check operation s =
     (if current_operation s = None then
        (if on_ready_count s \<noteq> 0 then
           (Inl (unlock_and_throw True Ready_before_start), s)
         else (Inr (), s\<lparr> current_operation := operation \<rparr>))
      else if current_operation s \<noteq> operation then
        (Inl (unlock_and_throw True Operation_mismatch), s)
      else (Inr (), s))"

text \<open>\<^verbatim>\<open>handle_data\<close> up to its arrival at the gate: the admission check, then the step (when
  one was given) on \<^verbatim>\<open>access_data<Data>(num_values)\<close>. The calls into the gate
  (\<^verbatim>\<open>get_shared_future\<close>, \<^verbatim>\<open>synchronize\<close>, \<^verbatim>\<open>set\<close>) belong to \<^verbatim>\<open>and_gate\<close>; what the gate
  runs of this class are the continuation \<open>on_ready\<close> above and the completion callback
  below.\<close>

definition handle_data ::
  "operation_id_type \<Rightarrow> size_t \<Rightarrow> ('v, 'e) step option \<Rightarrow> 'v elem_type \<Rightarrow> size_t
     \<Rightarrow> ('v, 'x) communicator_server_scheme
     \<Rightarrow> ('e exn + unit) \<times> ('v, 'x) communicator_server_scheme" where
  "handle_data operation which step T num_values s =
     (case admission_check operation s of
        (Inl e, s1) \<Rightarrow> (Inl e, s1)
      | (Inr _, s1) \<Rightarrow>
          (case step of
             None \<Rightarrow> (Inr (), s1)
           | Some st \<Rightarrow>
               (case access_data T num_values s1 of
                  (Inl e, s2) \<Rightarrow> (Inl e, s2)
                | (Inr v, s2) \<Rightarrow>
                    (case st v which of
                       (r, v') \<Rightarrow>
                         (case r of
                            Inl e \<Rightarrow> Inl (User_exception e)
                          | Inr u \<Rightarrow> Inr u,
                          s2\<lparr> data := Any_vector (type_id T) v' \<rparr>)))))"

text \<open>What the completion callback handed to \<^verbatim>\<open>gate_.set\<close> (lines 381 to 411) does besides
  changing the communicator: the error it stores in \<^verbatim>\<open>ec\<close>, the generation it passes to
  \<^verbatim>\<open>gate.next_generation\<close> when it calls it, and whether it released the lock it was given.\<close>

record 'e completion =
  error_code :: "'e exn option"
  next_generation :: "size_t option"
  lock_released :: bool

text \<open>Modelled from the spec: the macro \<^verbatim>\<open>HPX_THROWS_IF\<close> is not under src/; the
  specification says of this error that it is "reported through the error-code channel of
  the gate's completion callback, not thrown", so the macro stores the error in \<^verbatim>\<open>ec\<close>.
  The lock the gate passes is owned (\<^verbatim>\<open>HPX_ASSERT_OWNS_LOCK(l)\<close>).\<close>

definition completion_callback ::
  "size_t \<Rightarrow> ('v, 'x) communicator_server_scheme
     \<Rightarrow> 'e completion \<times> ('v, 'x) communicator_server_scheme" where
  "completion_callback generation s =
     (if on_ready_count s \<noteq> num_sites s then
        (\<lparr> error_code = Some (Invalid_status Incomplete_on_ready),
            next_generation = None, lock_released = True \<rparr>, s)
      else
        (\<lparr> error_code = None, next_generation = Some generation, lock_released = False \<rparr>,
         invalidate_data s))"

subsection \<open>Sequences of operations on one communicator\<close>

datatype ('v, 'e, 'r) action =
    Handle_data operation_id_type size_t "('v, 'e) step option" "'v elem_type" size_t
  | On_ready operation_id_type size_t size_t "('v, 'e, 'r) finalizer option" "'v elem_type"
      "'e option" bool
  | Completion_callback size_t
  | Invalidate_data

fun perform ::
  "('v, 'e, 'r) action \<Rightarrow> ('v, 'x) communicator_server_scheme
     \<Rightarrow> ('v, 'x) communicator_server_scheme" where
  "perform (Handle_data operation which step T num_values) s =
     snd (handle_data operation which step T num_values s)"
| "perform (On_ready operation which num_values finalizer T f owns) s =
     snd (on_ready operation which num_values finalizer T f owns s)"
| "perform (Completion_callback generation) s =
     snd (completion_callback generation s :: 'e completion \<times> _)"
| "perform Invalidate_data s = invalidate_data s"

definition run ::
  "('v, 'e, 'r) action list \<Rightarrow> ('v, 'x) communicator_server_scheme
     \<Rightarrow> ('v, 'x) communicator_server_scheme" where
  "run acts s = foldl (\<lambda>s' a. perform a s') s acts"

subsection \<open>\<^verbatim>\<open>handle_bool\<close>\<close>

text \<open>\<^verbatim>\<open>handle_bool<ValueType>(data)\<close> (lines 417 to 428). \<open>is_bool\<close> is
  \<^verbatim>\<open>std::is_same_v<ValueType, bool>\<close>, \<open>static_cast_bool\<close> the conversion of the argument's
  type to \<^verbatim>\<open>bool\<close>. The two branches of \<^verbatim>\<open>if constexpr\<close> return different types: a
  \<^verbatim>\<open>bool\<close> (\<open>Inl\<close>) or the forwarded argument (\<open>Inr\<close>).\<close>

definition handle_bool :: "bool \<Rightarrow> ('d \<Rightarrow> bool) \<Rightarrow> 'd \<Rightarrow> bool + 'd" where
  "handle_bool is_bool static_cast_bool d =
     (if is_bool then Inl (static_cast_bool d) else Inr d)"

text \<open>Modelled from the spec: the "bit-packed default vector for booleans"
  (\<^verbatim>\<open>std::vector<bool>\<close>), which is not under src/. The elements are the bits of 64-bit
  words; a reference to an element is a proxy that names a word and a bit of it. Converting
  the proxy to \<^verbatim>\<open>bool\<close> reads the bit; assigning through it writes the bit.\<close>

datatype bit_reference = Bit_reference (word_index: nat) (bit_index: nat)

definition bit_value :: "64 word list \<Rightarrow> bit_reference \<Rightarrow> bool" where
  "bit_value ws r = bit (ws ! word_index r) (bit_index r)"

definition bit_assign :: "64 word list \<Rightarrow> bit_reference \<Rightarrow> bool \<Rightarrow> 64 word list" where
  "bit_assign ws r b =
     ws[word_index r :=
          (if b then set_bit (bit_index r) (ws ! word_index r)
           else unset_bit (bit_index r) (ws ! word_index r))]"

subsection \<open>Example inputs\<close>

text \<open>An element type with identity 0 whose value-initialised element is 0, and a second
  one with identity 1; both of eight bytes, so that a vector holds at most
  \<open>2 ^ 60 - 1\<close> of them.\<close>

definition T0 :: "nat elem_type" where
  "T0 = Elem_type 0 0 1152921504606846975"

definition T1 :: "nat elem_type" where
  "T1 = Elem_type 1 0 1152921504606846975"

text \<open>Three finalizers over vectors of naturals: one that throws, one that returns the
  length of the vector it is given, and one that returns the sum of that vector, overwrites
  the vector and sets the flag it received by reference.\<close>

definition throwing_finalizer :: "(nat, unit, nat) finalizer" where
  "throwing_finalizer v b w = (Inl (), v, b)"

definition length_finalizer :: "(nat, unit, nat) finalizer" where
  "length_finalizer v b w = (Inr (length v), v, b)"

definition summing_finalizer :: "(nat, unit, nat) finalizer" where
  "summing_finalizer v b w = (Inr (sum_list v), map (\<lambda>x. 0) v, True)"

text \<open>A communicator of one site on which one collective with no step and no finalizer
  has arrived and run its continuation: \<open>needs_initialization\<close> is still true,
  \<open>on_ready_count\<close> is 1 and \<open>current_operation\<close> is the token \<open>Some 7\<close>.\<close>

definition untyped_generation :: "nat communicator_server" where
  "untyped_generation =
     run [Handle_data (Some 7) 0 None T0 npos,
          On_ready (Some 7) 0 npos (None :: (nat, unit, unit) finalizer option) T0 None True]
       (new_communicator_server 1)"

text \<open>A communicator of one site at which a collective whose token is the null pointer
  has arrived.\<close>

definition null_token_arrival :: "nat communicator_server" where
  "null_token_arrival =
     run [Handle_data None 0 None T0 npos :: (nat, unit, unit) action]
       (new_communicator_server 1)"

text \<open>A communicator of two sites in the middle of a generation of the operation
  \<open>Some 7\<close>: storage initialised, \<open>c\<close> continuations done.\<close>

definition active_generation :: "size_t \<Rightarrow> nat communicator_server" where
  "active_generation c =
     \<lparr> data = Any_vector 0 [10, 20], num_sites = 2, on_ready_count = c,
       current_operation = Some 7, needs_initialization = False, data_available = True \<rparr>"

text \<open>A communicator of three sites at which the first site of a generation has arrived
  without a step: no typed access has happened yet.\<close>

definition first_arrival :: "nat communicator_server" where
  "first_arrival =
     run [Handle_data (Some 7) 0 None T0 npos :: (nat, unit, nat) action]
       (new_communicator_server 3)"

text \<open>A communicator of one site whose first generation ran with the explicit length 5
  and completed, and at which the only site of the second generation has arrived: the
  vector of five elements is still stored.\<close>

definition retained_vector :: "nat communicator_server" where
  "retained_vector =
     run [Handle_data (Some 7) 0 None T0 5,
          On_ready (Some 7) 0 5 (Some length_finalizer) T0 None True,
          Completion_callback 0,
          Handle_data (Some 7) 0 None T0 npos]
       (new_communicator_server 1)"

section \<open>Properties\<close>

subsection \<open>Frame lemmas\<close>

lemma reinitialize_data_frame:
  "on_ready_count (reinitialize_data T nv s) = on_ready_count s"
  "num_sites (reinitialize_data T nv s) = num_sites s"
  "current_operation (reinitialize_data T nv s) = current_operation s"
  by (simp_all add: reinitialize_data_def Let_def split: option.splits)

lemma access_data_result:
  "access_data T nv s = (r, s1) \<Longrightarrow>
     on_ready_count s1 = on_ready_count s \<and> num_sites s1 = num_sites s
     \<and> current_operation s1 = current_operation s"
  by (auto simp add: access_data_def Let_def reinitialize_data_frame split: option.splits)

lemma on_ready_count_after:
  "on_ready_count (snd (on_ready operation which num_values finalizer T f owns s))
     = (if f = None \<and> current_operation s \<noteq> None \<and> current_operation s = operation
           \<and> on_ready_count s < num_sites s
        then on_ready_count s + 1 else on_ready_count s)"
  by (auto simp add: on_ready_def on_exit_def split: option.splits prod.splits sum.splits
      dest: access_data_result)

lemma on_ready_num_sites:
  "num_sites (snd (on_ready operation which num_values finalizer T f owns s)) = num_sites s"
  by (auto simp add: on_ready_def on_exit_def split: option.splits prod.splits sum.splits
      dest: access_data_result)

lemma handle_data_frame:
  "on_ready_count (snd (handle_data operation which step T num_values s)) = on_ready_count s
   \<and> num_sites (snd (handle_data operation which step T num_values s)) = num_sites s"
  by (auto simp add: handle_data_def admission_check_def
      split: option.splits prod.splits sum.splits dest!: access_data_result)

lemma invalidate_data_frame:
  "num_sites (invalidate_data s) = num_sites s"
  "data (invalidate_data s) = data s"
  by (simp_all add: invalidate_data_def)

lemma unat_increment_below:
  fixes c n :: size_t
  assumes "c < n"
  shows "unat (c + 1) = unat c + 1"
proof -
  have "unat c < unat n" using assms by (simp add: word_less_nat_alt)
  moreover have "unat n < 2 ^ LENGTH(64)" by (rule unsigned_less)
  ultimately have "unat c + unat (1 :: size_t) < 2 ^ LENGTH(64)" by simp
  then show ?thesis using unat_add_lem [of c 1] by simp
qed

subsection \<open>The completion callback\<close>




subsection \<open>The continuation's count\<close>

text \<open>
  C2, as amended. An invocation of \<open>on_ready\<close> whose future holds no exception and that
  passes both checks (the stored operation is non-null and equals the arrival's token, and
  \<open>on_ready_count < num_sites\<close>) increments \<open>on_ready_count\<close> by exactly one without
  wrapping around, whether there is no finalizer, the finalizer returns, the finalizer
  throws or the typed access throws. An invocation that leaves before the guard is
  constructed (the future holds an exception, the operation re-check fails or the
  excessive-on_ready check fails) leaves the communicator, and so \<open>on_ready_count\<close>,
  unchanged.
\<close>

theorem on_ready_increments_after_checks:
  "(f = None \<and> current_operation s \<noteq> None \<and> current_operation s = operation
      \<and> on_ready_count s < num_sites s \<longrightarrow>
        on_ready_count (snd (on_ready operation which num_values finalizer T f owns s))
          = on_ready_count s + 1
        \<and> unat (on_ready_count (snd (on_ready operation which num_values finalizer T f owns s)))
          = unat (on_ready_count s) + 1)
   \<and> (f \<noteq> None \<or> current_operation s = None \<or> current_operation s \<noteq> operation
        \<or> num_sites s \<le> on_ready_count s \<longrightarrow>
        snd (on_ready operation which num_values finalizer T f owns s) = s)"
proof -
  have "snd (on_ready operation which num_values finalizer T f owns s) = s"
    if "f \<noteq> None \<or> current_operation s = None \<or> current_operation s \<noteq> operation
        \<or> num_sites s \<le> on_ready_count s"
    using that by (auto simp add: on_ready_def split: option.splits)
  then show ?thesis
    using unat_increment_below [of "on_ready_count s" "num_sites s"]
    by (auto simp add: on_ready_count_after)
qed

theorem on_ready_increments_after_checks_witness:
  "current_operation (active_generation 1) = Some 7
   \<and> on_ready_count (active_generation 1) < num_sites (active_generation 1)
   \<and> on_ready_count (snd (on_ready (Some 7) 0 npos
        (Some throwing_finalizer) T0 None True
        (active_generation 1))) = 2
   \<and> num_sites (active_generation 2) \<le> on_ready_count (active_generation 2)
   \<and> snd (on_ready (Some 7) 0 npos
        (Some throwing_finalizer) T0 None True
        (active_generation 2)) = active_generation 2"
  using on_ready_increments_after_checks
          [of None "active_generation 1" "Some 7" 0 npos
              "Some throwing_finalizer" T0 True]
        on_ready_increments_after_checks
          [of None "active_generation 2" "Some 7" 0 npos
              "Some throwing_finalizer" T0 True]
  by (simp add: active_generation_def)

text \<open>
  C2 as stated fails: on a communicator at which a collective with the null token has
  arrived, the continuation fails its operation re-check and leaves \<open>on_ready_count\<close> at
  0, not at 1.
\<close>

theorem on_ready_increment_counterexample:
  "on_ready_count (snd (on_ready None 0 npos
      (None :: (nat, unit, unit) finalizer option) T0 None True null_token_arrival))
     \<noteq> on_ready_count null_token_arrival + 1"
  by (simp add: null_token_arrival_def run_def handle_data_def admission_check_def
      on_ready_def new_communicator_server_def)

subsection \<open>Resetting the communicator\<close>

text \<open>
  C3, as amended. After any call to \<open>invalidate_data\<close>, \<open>needs_initialization\<close> is true and
  the type-erased storage \<open>data\<close> is the one the call started with. When the call starts
  with \<open>needs_initialization = false\<close>, it also leaves \<open>data_available = false\<close>,
  \<open>on_ready_count = 0\<close> and \<open>current_operation = null\<close>; when it starts with
  \<open>needs_initialization = true\<close>, the guard of the function skips the reset and the
  communicator is unchanged.
\<close>

theorem invalidate_data_resets_when_initialized:
  "needs_initialization (invalidate_data s)
   \<and> data (invalidate_data s) = data s
   \<and> (\<not> needs_initialization s \<longrightarrow>
        \<not> data_available (invalidate_data s)
        \<and> on_ready_count (invalidate_data s) = 0
        \<and> current_operation (invalidate_data s) = None)
   \<and> (needs_initialization s \<longrightarrow> invalidate_data s = s)"
  by (simp add: invalidate_data_def)

theorem invalidate_data_resets_when_initialized_witness:
  "\<not> needs_initialization (active_generation 2)
   \<and> needs_initialization (invalidate_data (active_generation 2))
   \<and> data (invalidate_data (active_generation 2)) = Any_vector 0 [10, 20]
   \<and> \<not> data_available (invalidate_data (active_generation 2))
   \<and> on_ready_count (invalidate_data (active_generation 2)) = 0
   \<and> current_operation (invalidate_data (active_generation 2)) = None
   \<and> needs_initialization (new_communicator_server 2 :: nat communicator_server)
   \<and> invalidate_data (new_communicator_server 2 :: nat communicator_server)
       = new_communicator_server 2"
  using invalidate_data_resets_when_initialized [of "active_generation 2"]
        invalidate_data_resets_when_initialized
          [of "new_communicator_server 2 :: nat communicator_server"]
  by (simp add: active_generation_def new_communicator_server_def)

text \<open>
  C3 as stated fails: after a collective with neither step nor finalizer on a communicator
  of one site, no typed access has happened, \<open>needs_initialization\<close> is still true, and
  \<open>invalidate_data\<close> leaves \<open>on_ready_count\<close> at 1 and \<open>current_operation\<close> non-null.
\<close>

theorem invalidate_data_counterexample:
  "on_ready_count (invalidate_data untyped_generation) = 1
   \<and> current_operation (invalidate_data untyped_generation) = Some 7"
  by (simp add: untyped_generation_def run_def handle_data_def admission_check_def
      on_ready_def on_exit_def invalidate_data_def new_communicator_server_def)

subsection \<open>The admission check\<close>

text \<open>
  C4. The admission check of \<open>handle_data\<close> raises if and only if either
  \<open>current_operation\<close> is null and \<open>on_ready_count \<noteq> 0\<close>, or \<open>current_operation\<close> is
  non-null and differs from the arriving token; what it raises is \<open>invalid_status\<close>
  (ready-before-start in the first case, operation mismatch in the second) and the
  communicator is then unchanged. When it does not raise and \<open>current_operation\<close> was null,
  it sets \<open>current_operation\<close> to the arriving token and changes nothing else; when
  \<open>current_operation\<close> already equals the token, the communicator is unchanged.
\<close>

theorem admission_check_raises_iff:
  "((\<exists>e. fst (admission_check operation s :: ('e exn + unit) \<times> _) = Inl e)
      \<longleftrightarrow> (current_operation s = None \<and> on_ready_count s \<noteq> 0)
          \<or> (current_operation s \<noteq> None \<and> current_operation s \<noteq> operation))
   \<and> (current_operation s = None \<and> on_ready_count s \<noteq> 0 \<longrightarrow>
          (admission_check operation s :: ('e exn + unit) \<times> _) = (Inl (Invalid_status Ready_before_start), s))
   \<and> (current_operation s \<noteq> None \<and> current_operation s \<noteq> operation \<longrightarrow>
          (admission_check operation s :: ('e exn + unit) \<times> _) = (Inl (Invalid_status Operation_mismatch), s))
   \<and> (current_operation s = None \<and> on_ready_count s = 0 \<longrightarrow>
          (admission_check operation s :: ('e exn + unit) \<times> _) = (Inr (), s\<lparr> current_operation := operation \<rparr>))
   \<and> (current_operation s \<noteq> None \<and> current_operation s = operation \<longrightarrow>
          (admission_check operation s :: ('e exn + unit) \<times> _) = (Inr (), s))"
  by (auto simp add: admission_check_def unlock_and_throw_def unlock_def)

theorem admission_check_raises_iff_witness:
  "admission_check (Some 7) (active_generation 1)
     = (Inr () :: unit exn + unit, active_generation 1)
   \<and> admission_check (Some 8) (active_generation 1)
     = (Inl (Invalid_status Operation_mismatch) :: unit exn + unit, active_generation 1)
   \<and> admission_check (Some 7) (active_generation 1\<lparr> current_operation := None \<rparr>)
     = (Inl (Invalid_status Ready_before_start) :: unit exn + unit,
        active_generation 1\<lparr> current_operation := None \<rparr>)
   \<and> admission_check (Some 7) (active_generation 0\<lparr> current_operation := None \<rparr>)
     = (Inr () :: unit exn + unit, active_generation 0\<lparr> current_operation := Some 7 \<rparr>)"
  using admission_check_raises_iff [of "Some 7" "active_generation 1", where ?'e = unit]
        admission_check_raises_iff [of "Some 8" "active_generation 1", where ?'e = unit]
        admission_check_raises_iff
          [of "Some 7" "active_generation 1\<lparr> current_operation := None \<rparr>",
           where ?'e = unit]
        admission_check_raises_iff
          [of "Some 7" "active_generation 0\<lparr> current_operation := None \<rparr>",
           where ?'e = unit]
  by (simp add: active_generation_def)

subsection \<open>First typed access of a generation\<close>



subsection \<open>The bound on \<open>on_ready_count\<close>\<close>

lemma perform_num_sites: "num_sites (perform a s) = num_sites s"
proof (cases a)
  case (Handle_data operation which step T num_values)
  then show ?thesis using handle_data_frame [of operation which step T num_values s]
    by simp
next
  case (On_ready operation which num_values finalizer T f owns)
  then show ?thesis by (simp add: on_ready_num_sites)
next
  case (Completion_callback generation)
  then show ?thesis by (simp add: completion_callback_def invalidate_data_def)
next
  case Invalidate_data
  then show ?thesis by (simp add: invalidate_data_def)
qed

lemma perform_on_ready_count:
  assumes "on_ready_count s \<le> num_sites s"
  shows "on_ready_count (perform a s) \<le> num_sites s"
proof (cases a)
  case (Handle_data operation which step T num_values)
  then show ?thesis using assms handle_data_frame [of operation which step T num_values s]
    by simp
next
  case (On_ready operation which num_values finalizer T f owns)
  have "c + 1 \<le> n" if "c < n" for c n :: size_t
    using that by (simp add: inc_le)
  then show ?thesis using assms On_ready
    by (simp add: on_ready_count_after)
next
  case (Completion_callback generation)
  then show ?thesis using assms
    by (simp add: completion_callback_def invalidate_data_def)
next
  case Invalidate_data
  then show ?thesis using assms by (simp add: invalidate_data_def)
qed

lemma run_num_sites: "num_sites (run acts s) = num_sites s"
  unfolding run_def
  by (induction acts arbitrary: s) (simp_all add: perform_num_sites)

lemma run_on_ready_count:
  "on_ready_count s \<le> num_sites s \<Longrightarrow> on_ready_count (run acts s) \<le> num_sites s"
  unfolding run_def
proof (induction acts arbitrary: s)
  case Nil
  then show ?case by simp
next
  case (Cons a acts)
  have "on_ready_count (perform a s) \<le> num_sites (perform a s)"
    using perform_on_ready_count [OF Cons.prems, of a] by (simp add: perform_num_sites)
  from Cons.IH [OF this] show ?case by (simp add: perform_num_sites)
qed

text \<open>
  C8. In every state that a communicator constructed with \<open>n\<close> sites reaches by any
  sequence of \<open>handle_data\<close> calls (with any step, which may throw), runs of the \<open>on_ready\<close>
  continuation (with any finalizer, returning or throwing, with or without the lock, with
  or without a stored exception), completion callbacks and \<open>invalidate_data\<close> calls,
  \<open>0 \<le> on_ready_count \<le> num_sites\<close> holds, and \<open>num_sites\<close> is still \<open>n\<close>. More
  generally, any such sequence preserves \<open>on_ready_count \<le> num_sites\<close> and \<open>num_sites\<close>
  from whatever state it starts in.
\<close>

theorem on_ready_count_bounded:
  "(on_ready_count s \<le> num_sites s \<longrightarrow>
      on_ready_count (run acts s) \<le> num_sites (run acts s)
      \<and> num_sites (run acts s) = num_sites s)
   \<and> 0 \<le> on_ready_count (run acts (new_communicator_server n))
   \<and> on_ready_count (run acts (new_communicator_server n)) \<le> n
   \<and> num_sites (run acts (new_communicator_server n)) = n"
  using run_on_ready_count [of "new_communicator_server n" acts]
        run_on_ready_count [of s acts]
  by (simp add: run_num_sites) (simp add: new_communicator_server_def)

theorem on_ready_count_bounded_witness:
  "on_ready_count (active_generation 1) \<le> num_sites (active_generation 1)
   \<and> on_ready_count
        (run [On_ready (Some 7) 1 npos (Some summing_finalizer) T0 None True,
              On_ready (Some 7) 0 npos (Some throwing_finalizer) T0 None False,
              Completion_callback 0,
              Handle_data (Some 8) 0 None T1 npos] (active_generation 1))
       \<le> num_sites
        (run [On_ready (Some 7) 1 npos (Some summing_finalizer) T0 None True,
              On_ready (Some 7) 0 npos (Some throwing_finalizer) T0 None False,
              Completion_callback 0,
              Handle_data (Some 8) 0 None T1 npos] (active_generation 1))"
  using on_ready_count_bounded
          [of "active_generation 1"
              "[On_ready (Some 7) 1 npos (Some summing_finalizer) T0 None True,
                On_ready (Some 7) 0 npos (Some throwing_finalizer) T0 None False,
                Completion_callback 0,
                Handle_data (Some 8) 0 None T1 npos]" 2]
  by (auto simp add: active_generation_def)

subsection \<open>Reading booleans out of the payload\<close>

text \<open>
  C9. \<open>handle_bool\<close> returns its argument as it is when the value type is not \<^verbatim>\<open>bool\<close>.
  When the value type is \<^verbatim>\<open>bool\<close> it returns a value of type \<^verbatim>\<open>bool\<close>, the conversion of
  its argument: for a proxy reference into a bit-packed vector, the bit the proxy names, so
  that a boolean assigned through the proxy is the boolean \<open>handle_bool\<close> returns. The
  result is a \<open>bool\<close> of its own and no longer a reference into the storage.
\<close>

theorem handle_bool_identity_or_value:
  "handle_bool False static_cast_bool d = Inr d
   \<and> handle_bool True static_cast_bool d = Inl (static_cast_bool d)
   \<and> (word_index r < length ws \<and> bit_index r < 64 \<longrightarrow>
        handle_bool True (bit_value (bit_assign ws r b)) r = Inl b)"
  by (simp add: handle_bool_def bit_value_def bit_assign_def bit_set_bit_iff bit_unset_bit_iff)

theorem handle_bool_identity_or_value_witness:
  "handle_bool False (\<lambda>x. x \<noteq> (0::nat)) 5 = Inr 5
   \<and> handle_bool True (\<lambda>x. x \<noteq> (0::nat)) 5 = Inl True
   \<and> word_index (Bit_reference 1 3) < length [0, 0 :: 64 word]
   \<and> bit_index (Bit_reference 1 3) < 64
   \<and> handle_bool True (bit_value (bit_assign [0, 0] (Bit_reference 1 3) True))
        (Bit_reference 1 3) = Inl True
   \<and> handle_bool True (bit_value (bit_assign [0, 0] (Bit_reference 1 3) False))
        (Bit_reference 1 3) = Inl False"
  using handle_bool_identity_or_value
          [of "\<lambda>x. x \<noteq> (0::nat)" 5 "Bit_reference 1 3" "[0, 0]" True]
        handle_bool_identity_or_value
          [of "\<lambda>x. x \<noteq> (0::nat)" 5 "Bit_reference 1 3" "[0, 0]" False]
  by simp

subsection \<open>What the continuation raises and returns\<close>

text \<open>
  C5, as amended. For every invocation of \<open>on_ready\<close> whose future holds no exception:
  when the try-lock acquired the mutex, it raises \<open>invalid_status\<close> if and only if the
  stored \<open>current_operation\<close> is null or differs from the arrival's token, or
  \<open>on_ready_count \<ge> num_sites\<close> at entry. When neither holds: with a null finalizer it
  returns nothing and counts the run; with a finalizer and a payload that is (after
  reinitialisation) a \<^verbatim>\<open>vector<T>\<close>, it applies the finalizer once to
  \<^verbatim>\<open>access_data<T>(num_values)\<close>, \<open>data_available\<close> and \<open>which\<close>, the finalizer's return
  value (or exception) is the site's result and what the finalizer left in the vector and
  in the flag is stored; with a payload of another type the typed access raises
  \<open>bad_any_cast\<close> and the finalizer is not applied.
\<close>

theorem on_ready_raises_iff:
  fixes fin :: "('v, 'e, 'r) finalizer"
    and s s1 :: "('v, 'x) communicator_server_scheme"
  shows
  "(f = None \<and> owns \<longrightarrow>
      ((\<exists>err. fst (on_ready operation which num_values finalizer T f owns s)
                = Inl (Invalid_status err))
        \<longleftrightarrow> current_operation s = None \<or> current_operation s \<noteq> operation
            \<or> num_sites s \<le> on_ready_count s))
   \<and> (f = None \<and> current_operation s \<noteq> None \<and> current_operation s = operation
        \<and> on_ready_count s < num_sites s \<and> finalizer = None \<longrightarrow>
        on_ready operation which num_values finalizer T f owns s
          = (Inr None, s\<lparr> on_ready_count := on_ready_count s + 1 \<rparr>))
   \<and> (f = None \<and> current_operation s \<noteq> None \<and> current_operation s = operation
        \<and> on_ready_count s < num_sites s \<and> finalizer = Some fin
        \<and> (access_data T num_values s :: ('e exn + 'v list) \<times> _) = (Inr v, s1)
        \<and> fin v (data_available s1) which = (r, v', avail) \<longrightarrow>
        on_ready operation which num_values finalizer T f owns s
          = (case r of Inl e \<Rightarrow> Inl (User_exception e) | Inr x \<Rightarrow> Inr (Some x),
             s1\<lparr> data := Any_vector (type_id T) v', data_available := avail,
                 on_ready_count := on_ready_count s + 1 \<rparr>))
   \<and> (f = None \<and> current_operation s \<noteq> None \<and> current_operation s = operation
        \<and> on_ready_count s < num_sites s \<and> finalizer = Some fin
        \<and> any_cast T (data (reinitialize_data T num_values s)) = None \<longrightarrow>
        on_ready operation which num_values finalizer T f owns s
          = (Inl Bad_any_cast,
             (reinitialize_data T num_values s)\<lparr> on_ready_count := on_ready_count s + 1 \<rparr>))"
proof (intro conjI impI)
  assume "f = None \<and> owns"
  then show "(\<exists>err. fst (on_ready operation which num_values finalizer T f owns s)
                = Inl (Invalid_status err))
        \<longleftrightarrow> current_operation s = None \<or> current_operation s \<noteq> operation
            \<or> num_sites s \<le> on_ready_count s"
    by (auto simp add: on_ready_def on_exit_def unlock_and_throw_def unlock_def
        access_data_def Let_def
        split: option.splits prod.splits sum.splits)
next
  assume "f = None \<and> current_operation s \<noteq> None \<and> current_operation s = operation
        \<and> on_ready_count s < num_sites s \<and> finalizer = None"
  then show "on_ready operation which num_values finalizer T f owns s
          = (Inr None, s\<lparr> on_ready_count := on_ready_count s + 1 \<rparr>)"
    by (auto simp add: on_ready_def on_exit_def)
next
  assume a: "f = None \<and> current_operation s \<noteq> None \<and> current_operation s = operation
        \<and> on_ready_count s < num_sites s \<and> finalizer = Some fin
        \<and> (access_data T num_values s :: ('e exn + 'v list) \<times> _) = (Inr v, s1)
        \<and> fin v (data_available s1) which = (r, v', avail)"
  then have "on_ready_count s1 = on_ready_count s"
    using access_data_result [of T num_values s "Inr v :: 'e exn + 'v list" s1] by simp
  with a show "on_ready operation which num_values finalizer T f owns s
          = (case r of Inl e \<Rightarrow> Inl (User_exception e) | Inr x \<Rightarrow> Inr (Some x),
             s1\<lparr> data := Any_vector (type_id T) v', data_available := avail,
                 on_ready_count := on_ready_count s + 1 \<rparr>)"
    by (auto simp add: on_ready_def on_exit_def)
next
  assume "f = None \<and> current_operation s \<noteq> None \<and> current_operation s = operation
        \<and> on_ready_count s < num_sites s \<and> finalizer = Some fin
        \<and> any_cast T (data (reinitialize_data T num_values s)) = None"
  then show "on_ready operation which num_values finalizer T f owns s
          = (Inl Bad_any_cast,
             (reinitialize_data T num_values s)\<lparr> on_ready_count := on_ready_count s + 1 \<rparr>)"
    by (auto simp add: on_ready_def on_exit_def access_data_def Let_def
        reinitialize_data_frame)
qed

theorem on_ready_raises_iff_witness:
  "(\<exists>err. fst (on_ready (Some 7) 0 npos (Some summing_finalizer) T0 None True
               (active_generation 2)) = Inl (Invalid_status err))
   \<and> on_ready (Some 7) 0 npos (None :: (nat, unit, nat) finalizer option) T0 None True
         (active_generation 1)
       = (Inr None, active_generation 2)
   \<and> access_data T0 npos (active_generation 1)
       = (Inr [10, 20] :: unit exn + nat list, active_generation 1)
   \<and> on_ready (Some 7) 0 npos (Some summing_finalizer) T0 None True (active_generation 1)
       = (Inr (Some 30), (active_generation 2)\<lparr> data := Any_vector 0 [0, 0] \<rparr>)
   \<and> any_cast T1 (data (reinitialize_data T1 npos (active_generation 1))) = None
   \<and> on_ready (Some 7) 0 npos (Some summing_finalizer) T1 None True (active_generation 1)
       = (Inl Bad_any_cast, active_generation 2)"
proof -
  have c: "any_cast T1 (data (reinitialize_data T1 npos (active_generation 1))) = None"
    by (simp add: reinitialize_data_def active_generation_def T1_def)
  have a: "access_data T0 npos (active_generation 1)
             = (Inr [10, 20] :: unit exn + nat list, active_generation 1)"
    by (simp add: access_data_def reinitialize_data_def active_generation_def T0_def)
  have b: "summing_finalizer [10, 20] (data_available (active_generation 1)) 0
             = (Inr 30, [0, 0], True)"
    by (simp add: summing_finalizer_def)
  show ?thesis
    using on_ready_raises_iff
            [where f = None and owns = True and operation = "Some 7" and which = 0
               and num_values = npos and finalizer = "Some summing_finalizer" and T = T0
               and s = "active_generation 2" and fin = summing_finalizer]
          on_ready_raises_iff
            [where f = None and owns = True and operation = "Some 7" and which = 0
               and num_values = npos
               and finalizer = "None :: (nat, unit, nat) finalizer option" and T = T0
               and s = "active_generation 1" and fin = summing_finalizer]
          on_ready_raises_iff
            [where f = None and owns = True and operation = "Some 7" and which = 0
               and num_values = npos and finalizer = "Some summing_finalizer" and T = T0
               and s = "active_generation 1" and fin = summing_finalizer
               and v = "[10, 20]" and ?s1.0 = "active_generation 1" and r = "Inr 30"
               and v' = "[0, 0]" and avail = True]
          on_ready_raises_iff
            [where f = None and owns = True and operation = "Some 7" and which = 0
               and num_values = npos and finalizer = "Some summing_finalizer" and T = T1
               and s = "active_generation 1" and fin = summing_finalizer]
          a b c
    by (simp add: active_generation_def T0_def reinitialize_data_def)
qed

text \<open>
  C5 as stated fails: with an exception stored in the gate's future, \<^verbatim>\<open>f.get()\<close> rethrows
  it first. On a communicator that would pass both checks, the continuation then raises
  the stored exception, the finalizer that was provided is not invoked and no result is
  produced.
\<close>

theorem on_ready_raises_iff_counterexample:
  "current_operation (active_generation 1) = Some 7
   \<and> on_ready_count (active_generation 1) < num_sites (active_generation 1)
   \<and> on_ready (Some 7) 0 npos (Some summing_finalizer) T0 (Some ()) True (active_generation 1)
       = (Inl (Future_exception ()), active_generation 1)"
  by (simp add: on_ready_def active_generation_def)

text \<open>When the try-lock did not acquire the mutex, \<^verbatim>\<open>l.unlock()\<close> on the failing paths
  throws before \<^verbatim>\<open>HPX_THROW_EXCEPTION\<close> is reached.\<close>

lemma on_ready_unlock_without_ownership:
  "current_operation s = None \<or> current_operation s \<noteq> operation
     \<or> num_sites s \<le> on_ready_count s \<Longrightarrow>
   on_ready operation which num_values finalizer T None False s = (Inl System_error, s)"
  by (auto simp add: on_ready_def unlock_and_throw_def unlock_def)

subsection \<open>The vector a finalizer receives\<close>

text \<open>
  C6, as amended. When \<open>on_ready\<close> passes its checks and its typed access succeeds, the
  finalizer is applied to the stored \<^verbatim>\<open>vector<T>\<close>. If this is the first typed access of
  the generation, that vector has at least the required length (\<open>num_sites\<close>, or the
  explicit \<open>num_values\<close>): it is a fresh vector of exactly the required length when the
  stored value was not a \<^verbatim>\<open>vector<T>\<close> or was shorter, and it is the retained vector, whose
  length can exceed the required length, when a vector of the same element type and of at
  least the required length was stored. On a later access of the generation the stored
  vector is passed as it is.
\<close>

theorem finalizer_vector_length:
  fixes fin :: "('v, 'e, 'r) finalizer"
    and s s1 :: "('v, 'x) communicator_server_scheme"
  assumes "f = None"
    and "current_operation s \<noteq> None"
    and "current_operation s = operation"
    and "on_ready_count s < num_sites s"
    and "(access_data T num_values s :: ('e exn + 'v list) \<times> _) = (Inr v, s1)"
  shows "fst (on_ready operation which num_values (Some fin) T f owns s)
           = (case fst (fin v (data_available s1) which) of
                Inl e \<Rightarrow> Inl (User_exception e) | Inr x \<Rightarrow> Inr (Some x))
       \<and> (needs_initialization s \<longrightarrow> unat (get_num_sites s num_values) \<le> length v)
       \<and> (needs_initialization s
            \<and> (any_cast T (data s) = None
                 \<or> (\<exists>u. any_cast T (data s) = Some u
                        \<and> length u < unat (get_num_sites s num_values)))
            \<longrightarrow> v = replicate (unat (get_num_sites s num_values)) (value_init T))
       \<and> (\<forall>u. any_cast T (data s) = Some u
                \<and> (needs_initialization s \<longrightarrow> unat (get_num_sites s num_values) \<le> length u)
            \<longrightarrow> v = u)
       \<and> (num_values = npos \<longrightarrow> get_num_sites s num_values = num_sites s)
       \<and> (num_values \<noteq> npos \<longrightarrow> get_num_sites s num_values = num_values)"
proof -
  have call: "fst (on_ready operation which num_values (Some fin) T f owns s)
           = (case fst (fin v (data_available s1) which) of
                Inl e \<Rightarrow> Inl (User_exception e) | Inr x \<Rightarrow> Inr (Some x))"
    using assms by (auto simp add: on_ready_def on_exit_def split: prod.splits sum.splits)
  have vec: "any_cast T (data (reinitialize_data T num_values s)) = Some v"
    using assms(5) by (auto simp add: access_data_def Let_def split: option.splits)
  have len: "unat (get_num_sites s num_values) \<le> length v" if "needs_initialization s"
    using vec that
    by (auto simp add: reinitialize_data_def get_num_sites_def Let_def
        split: option.splits if_splits)
  have fresh: "v = replicate (unat (get_num_sites s num_values)) (value_init T)"
    if "needs_initialization s"
       "any_cast T (data s) = None
          \<or> (\<exists>u. any_cast T (data s) = Some u
                 \<and> length u < unat (get_num_sites s num_values))"
    using vec that
    by (auto simp add: reinitialize_data_def get_num_sites_def Let_def
        split: option.splits if_splits)
  have kept: "v = u"
    if "any_cast T (data s) = Some u"
       "needs_initialization s \<longrightarrow> unat (get_num_sites s num_values) \<le> length u" for u
    using vec that
    by (auto simp add: reinitialize_data_def get_num_sites_def Let_def
        split: option.splits if_splits)
  show ?thesis
    using call len fresh kept by (simp add: get_num_sites_def)
qed

theorem finalizer_vector_length_witness:
  "current_operation first_arrival = Some 7
   \<and> on_ready_count first_arrival < num_sites first_arrival
   \<and> needs_initialization first_arrival
   \<and> any_cast T0 (data first_arrival) = None
   \<and> fst (on_ready (Some 7) 0 npos (Some length_finalizer) T0 None True first_arrival)
       = Inr (Some 3)
   \<and> needs_initialization retained_vector
   \<and> any_cast T0 (data retained_vector) = Some (replicate 5 0)
   \<and> fst (on_ready (Some 7) 0 4 (Some length_finalizer) T0 None True retained_vector)
       = Inr (Some 5)
   \<and> \<not> needs_initialization (active_generation 1)
   \<and> fst (on_ready (Some 7) 0 npos (Some length_finalizer) T0 None True
             (active_generation 1))
       = Inr (Some 2)"
proof -
  have a3: "access_data T0 npos (active_generation 1)
      = (Inr [10, 20] :: unit exn + nat list, active_generation 1)"
    by (simp add: access_data_def reinitialize_data_def active_generation_def T0_def)
  have e1: "current_operation (active_generation 1) \<noteq> None"
    and e2: "current_operation (active_generation 1) = Some 7"
    and e3: "on_ready_count (active_generation 1) < num_sites (active_generation 1)"
    by (simp_all add: active_generation_def)
  have fa: "first_arrival =
      \<lparr> data = Any_empty, num_sites = 3, on_ready_count = 0, current_operation = Some 7,
        needs_initialization = True, data_available = False \<rparr>"
    by (simp add: first_arrival_def run_def handle_data_def admission_check_def
        new_communicator_server_def)
  have rv: "retained_vector =
      \<lparr> data = Any_vector 0 (replicate 5 0), num_sites = 1, on_ready_count = 0,
        current_operation = Some 7, needs_initialization = True, data_available = False \<rparr>"
    by (simp add: retained_vector_def run_def handle_data_def admission_check_def
        on_ready_def on_exit_def access_data_def reinitialize_data_def get_num_sites_def
        completion_callback_def invalidate_data_def new_communicator_server_def
        length_finalizer_def T0_def npos_def)
  have a1: "access_data T0 npos first_arrival
      = (Inr (replicate 3 0) :: unit exn + nat list,
         first_arrival\<lparr> needs_initialization := False,
                         data := Any_vector 0 (replicate 3 0) \<rparr>)"
    by (simp add: fa access_data_def reinitialize_data_def get_num_sites_def T0_def)
  have a2: "access_data T0 4 retained_vector
      = (Inr (replicate 5 0) :: unit exn + nat list,
         retained_vector\<lparr> needs_initialization := False \<rparr>)"
    by (simp add: rv access_data_def reinitialize_data_def get_num_sites_def T0_def npos_def)
  have c1: "current_operation first_arrival \<noteq> None"
    and c2: "current_operation first_arrival = Some 7"
    and c3: "on_ready_count first_arrival < num_sites first_arrival"
    by (simp_all add: fa)
  have d1: "current_operation retained_vector \<noteq> None"
    and d2: "current_operation retained_vector = Some 7"
    and d3: "on_ready_count retained_vector < num_sites retained_vector"
    by (simp_all add: rv)
  show ?thesis
    using finalizer_vector_length
            [OF refl c1 c2 c3 a1, where fin = length_finalizer and which = 0 and owns = True]
          finalizer_vector_length
            [OF refl d1 d2 d3 a2, where fin = length_finalizer and which = 0 and owns = True]
          finalizer_vector_length
            [OF refl e1 e2 e3 a3, where fin = length_finalizer and which = 0 and owns = True]
    by (simp add: fa rv length_finalizer_def T0_def active_generation_def)
qed

text \<open>
  C6 as stated fails: on a communicator of one site whose previous generation used the
  explicit length 5, a generation without explicit length reuses the stored vector, and
  the finalizer receives five elements, not \<open>num_sites = 1\<close>.
\<close>

theorem finalizer_vector_length_counterexample:
  "num_sites retained_vector = 1
   \<and> needs_initialization retained_vector
   \<and> fst (on_ready (Some 7) 0 npos (Some length_finalizer) T0 None True retained_vector)
       = Inr (Some 5)"
  by (simp add: retained_vector_def run_def handle_data_def admission_check_def
      on_ready_def on_exit_def access_data_def reinitialize_data_def get_num_sites_def
      completion_callback_def invalidate_data_def new_communicator_server_def
      length_finalizer_def T0_def npos_def)

subsection \<open>The null operation token\<close>

text \<open>
  C10, as amended. A call to \<open>handle_data\<close> whose token is the null pointer (what the
  unspecialised \<^verbatim>\<open>communicator_data<Operation>::id()\<close> returns) leaves \<open>current_operation\<close>
  as it was: null when it was null, and, when another operation is active, unchanged, the
  admission check raising the operation mismatch. Every run of \<open>on_ready\<close> for a null token
  raises and leaves the communicator unchanged (no finalizer is applied, the run is not
  counted), whatever the state; what it raises is \<open>invalid_status\<close> when the gate's future
  holds no exception and the try-lock acquired the mutex.
\<close>

theorem null_token_never_completes:
  fixes s s' :: "('v, 'x) communicator_server_scheme"
  shows "current_operation (snd (handle_data None which step T num_values s))
           = current_operation s
   \<and> (current_operation s = None \<longrightarrow>
        current_operation (snd (admission_check None s :: ('e exn + unit) \<times> _)) = None)
   \<and> (current_operation s \<noteq> None \<longrightarrow>
        (admission_check None s :: ('e exn + unit) \<times> _)
          = (Inl (Invalid_status Operation_mismatch), s))
   \<and> (\<exists>e. on_ready None which' num_values' finalizer T' f owns s' = (Inl e, s'))
   \<and> (f = None \<and> owns \<longrightarrow>
        on_ready None which' num_values' finalizer T' f owns s'
          = (Inl (Invalid_status On_ready_mismatch), s'))"
proof -
  have "current_operation (snd (handle_data None which step T num_values s))
           = current_operation s"
    by (auto simp add: handle_data_def admission_check_def
        split: option.splits prod.splits sum.splits dest!: access_data_result)
  moreover have "\<exists>e. on_ready None which' num_values' finalizer T' f owns s' = (Inl e, s')"
    by (cases f) (auto simp add: on_ready_def)
  ultimately show ?thesis
    by (auto simp add: admission_check_def on_ready_def unlock_and_throw_def unlock_def)
qed

theorem null_token_never_completes_witness:
  "current_operation (new_communicator_server 1 :: nat communicator_server) = None
   \<and> current_operation
        (snd (admission_check None (new_communicator_server 1 :: nat communicator_server)
                :: (unit exn + unit) \<times> nat communicator_server)) = None
   \<and> current_operation (active_generation 1) \<noteq> None
   \<and> admission_check None (active_generation 1)
       = (Inl (Invalid_status Operation_mismatch) :: unit exn + unit, active_generation 1)
   \<and> on_ready None 0 npos (Some summing_finalizer) T0 None True null_token_arrival
       = (Inl (Invalid_status On_ready_mismatch), null_token_arrival)"
  using null_token_never_completes
          [where s = "new_communicator_server 1 :: nat communicator_server"
             and s' = null_token_arrival and f = None and owns = True
             and finalizer = "Some summing_finalizer" and which' = 0
             and num_values' = npos and T' = T0 and ?'e = unit
             and which = 0 and step = "None :: (nat, unit) step option" and T = T0
             and num_values = npos]
        null_token_never_completes
          [where s = "active_generation 1"
             and s' = null_token_arrival and f = None and owns = True
             and finalizer = "Some summing_finalizer" and which' = 0
             and num_values' = npos and T' = T0 and ?'e = unit
             and which = 0 and step = "None :: (nat, unit) step option" and T = T0
             and num_values = npos]
  by (simp add: new_communicator_server_def active_generation_def)

text \<open>
  C10 as stated fails: when the operation \<open>Some 7\<close> is active, the admission check of a
  call with the null token raises and leaves \<open>current_operation\<close> at \<open>Some 7\<close>, not null.
\<close>

theorem null_token_counterexample:
  "current_operation
     (snd (admission_check None (active_generation 1)
             :: (unit exn + unit) \<times> nat communicator_server)) = Some 7"
  by (simp add: admission_check_def active_generation_def)

end
